theory Spec2Isabelle
  imports Main "HOL-Library.AList"
begin

section \<open>Strings and values of the JavaScript runtime\<close>

text \<open>
  The gateway is TypeScript. Its strings are modelled as \<open>string\<close>; the few methods of
  \<open>String.prototype\<close> and \<open>Array.prototype\<close> the code calls are written out below.
\<close>

text \<open>\<open>s.split(c)\<close> for a separator of one character: never the empty array.\<close>

fun js_split :: "char \<Rightarrow> string \<Rightarrow> string list" where
  "js_split c [] = [[]]"
| "js_split c (x # xs) =
     (if x = c then [] # js_split c xs
      else (case js_split c xs of
              [] \<Rightarrow> [[x]]
            | p # ps \<Rightarrow> (x # p) # ps))"

text \<open>\<open>parts.join(c)\<close>.\<close>

fun js_join :: "char \<Rightarrow> string list \<Rightarrow> string" where
  "js_join c [] = []"
| "js_join c [p] = p"
| "js_join c (p # q # ps) = p @ c # js_join c (q # ps)"

text \<open>\<open>s.indexOf(c)\<close>: \<open>None\<close> stands for \<open>-1\<close>.\<close>

fun indexOf :: "string \<Rightarrow> char \<Rightarrow> nat option" where
  "indexOf [] c = None"
| "indexOf (x # xs) c =
     (if x = c then Some 0
      else (case indexOf xs c of None \<Rightarrow> None | Some i \<Rightarrow> Some (Suc i)))"

text \<open>\<open>s.startsWith(p)\<close> and \<open>s.includes(sub)\<close> on strings.\<close>

definition startsWith :: "string \<Rightarrow> string \<Rightarrow> bool" where
  "startsWith s p = (take (length p) s = p)"

fun js_includes :: "string \<Rightarrow> string \<Rightarrow> bool" where
  "js_includes [] sub = (sub = [])"
| "js_includes (x # xs) sub = (startsWith (x # xs) sub \<or> js_includes xs sub)"

text \<open>
  The errors the code can raise: the explicit \<open>new Error(...)\<close> of the port directory, the
  \<open>TypeError\<close> the runtime raises when a property of \<open>undefined\<close> is read, and the
  router's \<open>HttpError\<close>.
\<close>

datatype HttpCode = Unauthorized

datatype error =
    Error string
  | TypeError string
  | HttpError string HttpCode

text \<open>
  A property read \<open>ports[key]\<close> on an object literal yields the object's own property when
  it has one, and otherwise whatever \<open>Object.prototype\<close> holds under that name. The
  directory is such an object literal (\<open>{}\<close>), so both kinds of value can come out of it.
\<close>

datatype jsvalue =
    Str string
  | Inherited string

definition Object_prototype :: "string list" where
  "Object_prototype =
     [''constructor'', ''__defineGetter__'', ''__defineSetter__'', ''hasOwnProperty'',
      ''__lookupGetter__'', ''__lookupSetter__'', ''isPrototypeOf'',
      ''propertyIsEnumerable'', ''toString'', ''valueOf'', ''__proto__'',
      ''toLocaleString'']"

text \<open>
  The text a template literal inserts for a value: an inherited member is a native
  function (under \<open>constructor\<close>, the function \<open>Object\<close>) or, under \<open>__proto__\<close>, the
  prototype object itself.
\<close>

fun toString :: "jsvalue \<Rightarrow> string" where
  "toString (Str s) = s"
| "toString (Inherited name) =
     (if name = ''__proto__'' then ''[object Object]''
      else ''function '' @ (if name = ''constructor'' then ''Object'' else name) @
           ''() { [native code] }'')"

section \<open>The port directory (src/node/publicPort.ts)\<close>

text \<open>
  What a slot of \<open>portFiles\<close> holds at run time: the value the schema validation returned.
  That is \<open>undefined\<close> for an empty YAML document, and otherwise an object whose \<open>ports\<close>
  property may be absent (the schema does not require it).
\<close>

datatype PortFile =
    UndefinedFile
  | PortFile "string list option"

type_synonym Ports = "string \<rightharpoonup> string"

text \<open>
  The fields of the class. \<open>portFiles\<close> is a JavaScript object keyed by relative path; its
  values are enumerated in insertion order (the keys are paths accepted by the glob, not
  array indices), so it is an association list.
\<close>

record PublicPorts =
  portFiles :: "(string \<times> PortFile) list"
  searchPath :: "string option"
  portsGlob :: string

definition new_PublicPorts :: PublicPorts where
  "new_PublicPorts =
     \<lparr>portFiles = [], searchPath = None, portsGlob = ''**/.brev/ports.y*ml''\<rparr>"

definition startWatch :: "PublicPorts \<Rightarrow> string \<Rightarrow> PublicPorts" where
  "startWatch this path = this\<lparr>searchPath := Some path\<rparr>"

subsection \<open>Validation of one entry\<close>

definition is_digit :: "char \<Rightarrow> bool" where
  "is_digit c = (c \<in> set ''0123456789'')"

definition is_lower_alnum :: "char \<Rightarrow> bool" where
  "is_lower_alnum c = (c \<in> set ''abcdefghijklmnopqrstuvwxyz0123456789'')"

text \<open>\<open>/^[0-9]+$/i\<close> and \<open>/^[a-z0-9]+$/\<close>: in JavaScript \<open>$\<close> is the end of the input.\<close>

definition validatePort :: "string \<Rightarrow> string option" where
  "validatePort port = (if port \<noteq> [] \<and> list_all is_digit port then Some port else None)"

definition validatePortOrAlias :: "string \<Rightarrow> string option" where
  "validatePortOrAlias portOrAlias =
     (if portOrAlias \<noteq> [] \<and> list_all is_lower_alnum portOrAlias
      then Some portOrAlias else None)"

definition parsePortOrPortMapping :: "string \<Rightarrow> (string \<times> string) option" where
  "parsePortOrPortMapping portOrMapping =
     (if CHR '':'' \<in> set portOrMapping then
        (let res = js_split CHR '':'' portOrMapping in
         case validatePortOrAlias (res ! 0) of
           None \<Rightarrow> None
         | Some portOrAlias \<Rightarrow>
             (case validatePort (res ! 1) of
                None \<Rightarrow> None
              | Some port \<Rightarrow> Some (portOrAlias, port)))
      else
        (case validatePort portOrMapping of
           None \<Rightarrow> None
         | Some port \<Rightarrow> Some (port, port)))"

subsection \<open>Merging the tracked documents\<close>

text \<open>The body of the \<open>forEach\<close>: push an entry the accumulator does not include yet.\<close>

definition pushNew :: "string list \<Rightarrow> string \<Rightarrow> string list" where
  "pushNew prev port = (if port \<in> set prev then prev else prev @ [port])"

text \<open>
  The \<open>reduce\<close> over \<open>Object.values(this.portFiles)\<close>. Reading \<open>currValue.ports\<close> of an
  \<open>undefined\<close> slot, and calling \<open>forEach\<close> on an absent \<open>ports\<close>, raise a \<open>TypeError\<close>.
\<close>

fun mergeInto :: "string list \<Rightarrow> PortFile list \<Rightarrow> error + string list" where
  "mergeInto prev [] = Inr prev"
| "mergeInto prev (UndefinedFile # rest) =
     Inl (TypeError ''Cannot read properties of undefined (reading 'ports')'')"
| "mergeInto prev (PortFile None # rest) =
     Inl (TypeError ''Cannot read properties of undefined (reading 'forEach')'')"
| "mergeInto prev (PortFile (Some ps) # rest) = mergeInto (foldl pushNew prev ps) rest"

definition mergePortFiles :: "PublicPorts \<Rightarrow> error + string list" where
  "mergePortFiles this = mergeInto [] (map snd (portFiles this))"

definition putMapping :: "Ports \<Rightarrow> string \<Rightarrow> Ports" where
  "putMapping prev cur =
     (case parsePortOrPortMapping cur of
        None \<Rightarrow> prev
      | Some (k, v) \<Rightarrow> prev(k \<mapsto> v))"

definition portFileToPorts :: "string list \<Rightarrow> Ports" where
  "portFileToPorts file_ports = foldl putMapping Map.empty file_ports"

definition getPublicPorts :: "PublicPorts \<Rightarrow> error + Ports" where
  "getPublicPorts this =
     (case searchPath this of
        None \<Rightarrow> Inl (Error ''searchPath not defined -- startWatch not yet called'')
      | Some _ \<Rightarrow>
          (case mergePortFiles this of
             Inl e \<Rightarrow> Inl e
           | Inr mergedPorts \<Rightarrow> Inr (portFileToPorts mergedPorts)))"

text \<open>\<open>ports[key]\<close> on the object literal the directory is built in; \<open>None\<close> is \<open>undefined\<close>.\<close>

definition js_get :: "Ports \<Rightarrow> string \<Rightarrow> jsvalue option" where
  "js_get ports key =
     (case ports key of
        Some v \<Rightarrow> Some (Str v)
      | None \<Rightarrow> (if key \<in> set Object_prototype then Some (Inherited key) else None))"

text \<open>The result \<open>None\<close> is the \<open>null\<close> the method returns.\<close>

definition getPublicPort :: "PublicPorts \<Rightarrow> string \<Rightarrow> error + jsvalue option" where
  "getPublicPort this portOrAlias =
     (case getPublicPorts this of
        Inl e \<Rightarrow> Inl e
      | Inr ports \<Rightarrow> Inr (js_get ports portOrAlias))"

subsection \<open>Reading one manifest file\<close>

text \<open>
  The libraries the class calls are its environment: the glob matcher (picomatch), the
  read of a file (which throws when the file cannot be read) and the YAML loader (which
  throws on a syntax error).
\<close>

datatype yaml =
    YUndefined
  | YNull
  | YBool bool
  | YNumber int
  | YString string
  | YSeq "yaml list"
  | YMap "(string \<times> yaml) list"

record Env =
  picomatch :: "string \<Rightarrow> string \<Rightarrow> bool"
  readFileSync :: "string \<Rightarrow> error + string"
  yaml_load :: "string \<Rightarrow> error + yaml"

text \<open>
  \<open>portFileSchema\<close>: an object with the keys \<open>version\<close> (a string) and \<open>ports\<close> (an array of
  strings). As the schema is declared, both keys are optional, any other key is refused,
  a string must not be empty, \<open>null\<close> is no object and no array, and the value
  \<open>undefined\<close> passes unchanged.
\<close>

fun joi_string :: "yaml \<Rightarrow> string option" where
  "joi_string (YString s) = (if s = [] then None else Some s)"
| "joi_string _ = None"

fun joi_array_items_string :: "yaml \<Rightarrow> string list option" where
  "joi_array_items_string (YSeq items) = those (map joi_string items)"
| "joi_array_items_string _ = None"

definition portFileSchema_validate :: "yaml \<Rightarrow> string + PortFile" where
  "portFileSchema_validate yamlData =
     (case yamlData of
        YUndefined \<Rightarrow> Inr UndefinedFile
      | YMap kvs \<Rightarrow>
          if \<not> list_all (\<lambda>k. k = ''version'' \<or> k = ''ports'') (map fst kvs)
          then Inl ''key is not allowed''
          else if (case map_of kvs ''version'' of
                     None \<Rightarrow> False
                   | Some v \<Rightarrow> joi_string v = None)
          then Inl ''version must be a string''
          else (case map_of kvs ''ports'' of
                  None \<Rightarrow> Inr (PortFile None)
                | Some v \<Rightarrow>
                    (case joi_array_items_string v of
                       None \<Rightarrow> Inl ''ports must be an array of strings''
                     | Some ps \<Rightarrow> Inr (PortFile (Some ps))))
      | _ \<Rightarrow> Inl ''value must be of type object'')"

definition getFullPath :: "PublicPorts \<Rightarrow> string \<Rightarrow> string" where
  "getFullPath this relPath =
     (case searchPath this of None \<Rightarrow> ''undefined'' | Some p \<Rightarrow> p) @ ''/'' @ relPath"

text \<open>The result \<open>None\<close> is the \<open>null\<close> of both error branches.\<close>

definition getPublicPortsFromFile :: "Env \<Rightarrow> PublicPorts \<Rightarrow> string \<Rightarrow> PortFile option" where
  "getPublicPortsFromFile env this relPath =
     (case readFileSync env (getFullPath this relPath) of
        Inl e \<Rightarrow> None
      | Inr text \<Rightarrow>
          (case yaml_load env text of
             Inl e \<Rightarrow> None
           | Inr yamlData \<Rightarrow>
               (case portFileSchema_validate yamlData of
                  Inl message \<Rightarrow> None
                | Inr v \<Rightarrow> Some v)))"

subsection \<open>The watcher's events\<close>

definition didMatchGlob :: "Env \<Rightarrow> PublicPorts \<Rightarrow> string \<Rightarrow> bool" where
  "didMatchGlob env this relPath = picomatch env (portsGlob this) relPath"

definition putFile :: "Env \<Rightarrow> PublicPorts \<Rightarrow> string \<Rightarrow> PublicPorts" where
  "putFile env this relPath =
     (if \<not> didMatchGlob env this relPath then this
      else (case getPublicPortsFromFile env this relPath of
              None \<Rightarrow> this
            | Some publicPorts \<Rightarrow>
                this\<lparr>portFiles := AList.update relPath publicPorts (portFiles this)\<rparr>))"

definition deleteFile :: "Env \<Rightarrow> PublicPorts \<Rightarrow> string \<Rightarrow> PublicPorts" where
  "deleteFile env this relPath =
     (if \<not> didMatchGlob env this relPath then this
      else this\<lparr>portFiles := AList.delete relPath (portFiles this)\<rparr>)"

section \<open>The domain proxy routes\<close>

record Args =
  proxy_domain :: "string list"
  proxy_port_separator :: "string option"

text \<open>
  The parts of an Express request the handlers read. \<open>host\<close> and \<open>accept\<close> are the
  headers of these names, absent when \<open>None\<close>; \<open>req_method\<close> is \<open>req.method\<close>.
\<close>

record Request =
  host :: "string option"
  accept :: "string option"
  path :: string
  req_method :: string
  baseUrl :: string
  originalUrl :: string
  args :: Args

definition maybeProxy :: "Request \<Rightarrow> string option" where
  "maybeProxy req =
     (let host = (case host req of None \<Rightarrow> [] | Some h \<Rightarrow> h);
          domain = (case indexOf host CHR '':'' of None \<Rightarrow> host | Some idx \<Rightarrow> take idx host);
          separator = (if proxy_port_separator (args req) = Some ''dash''
                       then CHR ''-'' else CHR ''.'')
      in case js_split separator domain of
           [] \<Rightarrow> None
         | port # parts \<Rightarrow>
             (let proxyDomain = js_join separator parts
              in if port = [] \<or> proxyDomain \<notin> set (proxy_domain (args req))
                 then None else Some port))"

text \<open>
  What a handler does with a request: hand it on (\<open>next()\<close>), answer with a redirect to a
  route, or call the forwarder with a target.
\<close>

datatype outcome =
    Next
  | Redirect string "string option"
  | ProxyWeb string
  | ProxyWs string

text \<open>\<open>/\/login\/?/.test(p)\<close>: the pattern is not anchored and its last slash is optional.\<close>

definition login_test :: "string \<Rightarrow> bool" where
  "login_test p = js_includes p ''/login''"

definition accepts_html :: "Request \<Rightarrow> bool" where
  "accepts_html req =
     (case accept req of
        None \<Rightarrow> False
      | Some a \<Rightarrow> a \<noteq> [] \<and> js_includes a ''text/html'')"

definition proxy_target :: "jsvalue \<Rightarrow> Request \<Rightarrow> string" where
  "proxy_target mappedPort req = ''http://0.0.0.0:'' @ toString mappedPort @ originalUrl req"

text \<open>
  \<open>router.all("*", ...)\<close>. The function \<open>normalize\<close> of common/util (here
  \<open>normalize_fn\<close>) and the awaited result of \<open>authenticated(req)\<close> are taken as given.
\<close>

definition router_all ::
  "(string \<Rightarrow> string) \<Rightarrow> PublicPorts \<Rightarrow> bool \<Rightarrow> Request \<Rightarrow> error + outcome" where
  "router_all normalize_fn publicPorts isAuthenticated req =
     (case maybeProxy req of
        None \<Rightarrow> Inr Next
      | Some port \<Rightarrow>
          (case getPublicPort publicPorts port of
             Inl e \<Rightarrow> Inl e
           | Inr foundPublicPort \<Rightarrow>
               (let portIsPublic = (foundPublicPort \<noteq> None)
                in if \<not> isAuthenticated \<and> \<not> portIsPublic then
                     (if startsWith (path req) ''/static/'' \<and> req_method req = ''GET''
                      then Inr Next
                      else if accepts_html req then
                        (if login_test (path req) then Inr Next
                         else (let to = normalize_fn (baseUrl req @ path req)
                               in Inr (Redirect ''login''
                                         (if to \<noteq> ''/'' then Some to else None))))
                      else Inl (HttpError ''Unauthorized'' Unauthorized))
                   else
                     (let mappedPort =
                            (case foundPublicPort of Some p \<Rightarrow> p | None \<Rightarrow> Str port)
                      in Inr (ProxyWeb (proxy_target mappedPort req))))))"

text \<open>\<open>wsRouter.ws("*", ...)\<close>.\<close>

definition wsRouter_ws :: "PublicPorts \<Rightarrow> bool \<Rightarrow> Request \<Rightarrow> error + outcome" where
  "wsRouter_ws publicPorts isAuthenticated req =
     (case maybeProxy req of
        None \<Rightarrow> Inr Next
      | Some port \<Rightarrow>
          (case getPublicPort publicPorts port of
             Inl e \<Rightarrow> Inl e
           | Inr foundPublicPort \<Rightarrow>
               (let portIsPublic = (foundPublicPort \<noteq> None)
                in if \<not> isAuthenticated \<and> \<not> portIsPublic
                   then Inl (HttpError ''Unauthorized'' Unauthorized)
                   else
                     (let mappedPort =
                            (case foundPublicPort of Some p \<Rightarrow> p | None \<Rightarrow> Str port)
                      in Inr (ProxyWs (proxy_target mappedPort req))))))"

section \<open>Notions used to state the properties\<close>

text \<open>
  The entries a tracked document holds (none when it has no \<open>ports\<close> array), the entries
  of all tracked documents, and the documents whose \<open>ports\<close> is an array.
\<close>

fun entries :: "PortFile \<Rightarrow> string list" where
  "entries UndefinedFile = []"
| "entries (PortFile None) = []"
| "entries (PortFile (Some ps)) = ps"

fun has_ports :: "PortFile \<Rightarrow> bool" where
  "has_ports (PortFile (Some ps)) = True"
| "has_ports _ = False"

definition tracked_entries :: "PublicPorts \<Rightarrow> string list" where
  "tracked_entries this = concat (map (\<lambda>(relPath, file). entries file) (portFiles this))"

definition well_formed :: "PublicPorts \<Rightarrow> bool" where
  "well_formed this = list_all (\<lambda>(relPath, file). has_ports file) (portFiles this)"

text \<open>
  Some tracked entry passes validation with this key and this port: the bare port entry
  \<open>key\<close> (then \<open>port = key\<close>), or an alias mapping \<open>key:port\<close>.
\<close>

definition declares :: "PublicPorts \<Rightarrow> string \<Rightarrow> string \<Rightarrow> bool" where
  "declares this key port =
     list_ex (\<lambda>e. parsePortOrPortMapping e = Some (key, port)) (tracked_entries this)"

section \<open>Concrete requests, files and directories\<close>

text \<open>A request for a host, with the proxy domain \<open>example.com\<close> and the default separator.\<close>

definition example_request :: "string \<Rightarrow> Request" where
  "example_request h =
     \<lparr>host = Some h, accept = None, path = ''/'', req_method = ''GET'', baseUrl = [],
      originalUrl = ''/'',
      args = \<lparr>proxy_domain = [''example.com''], proxy_port_separator = None\<rparr>\<rparr>"

text \<open>
  A few manifest texts and what the YAML loader makes of each. An unquoted \<open>8000\<close> loads
  as a number; the empty text loads as \<open>undefined\<close>; a text that is not in the table is a
  YAML syntax error.
\<close>

definition manifest_8000 :: string where
  "manifest_8000 = ''ports:\<newline>  - '8000'\<newline>''"

definition manifest_myserver :: string where
  "manifest_myserver = ''ports:\<newline>  - myserver:8080\<newline>''"

definition manifest_a1 :: string where
  "manifest_a1 = ''ports:\<newline>  - a:1\<newline>''"

definition manifest_a2 :: string where
  "manifest_a2 = ''ports:\<newline>  - a:2\<newline>''"

definition manifest_unquoted :: string where
  "manifest_unquoted = ''ports:\<newline>  - 8000\<newline>''"

definition manifest_broken :: string where
  "manifest_broken = ''ports: [''"

definition example_yaml_load :: "string \<Rightarrow> error + yaml" where
  "example_yaml_load text =
     (case map_of
        [(manifest_8000, YMap [(''ports'', YSeq [YString ''8000''])]),
         (manifest_myserver, YMap [(''ports'', YSeq [YString ''myserver:8080''])]),
         (manifest_a1, YMap [(''ports'', YSeq [YString ''a:1''])]),
         (manifest_a2, YMap [(''ports'', YSeq [YString ''a:2''])]),
         (manifest_unquoted, YMap [(''ports'', YSeq [YNumber 8000])]),
         ([], YUndefined)] text of
        None \<Rightarrow> Inl (Error ''YAMLException'')
      | Some y \<Rightarrow> Inr y)"

text \<open>
  An environment whose file system holds the given files, and whose glob matcher accepts
  the paths that end in \<open>.brev/ports.yaml\<close>.
\<close>

definition example_env :: "(string \<times> string) list \<Rightarrow> Env" where
  "example_env files =
     \<lparr>picomatch = (\<lambda>glob relPath. drop (length relPath - 16) relPath = ''.brev/ports.yaml''),
      readFileSync = (\<lambda>p. case map_of files p of
                             None \<Rightarrow> Inl (Error ''ENOENT'')
                           | Some text \<Rightarrow> Inr text),
      yaml_load = example_yaml_load\<rparr>"

definition started :: PublicPorts where
  "started = startWatch new_PublicPorts ''/home/workspace''"

text \<open>
  The directory after the watcher has added one manifest whose only entry is the alias
  mapping \<open>myserver:8080\<close>.
\<close>

definition directory_alias :: PublicPorts where
  "directory_alias =
     putFile (example_env [(''/home/workspace/app/.brev/ports.yaml'', manifest_myserver)])
       started ''app/.brev/ports.yaml''"

text \<open>
  The directory after the watcher has added \<open>a/.brev/ports.yaml\<close> (entry \<open>a:2\<close>) and then
  \<open>b/.brev/ports.yaml\<close> (entry \<open>a:1\<close>).
\<close>

definition env_a2 :: Env where
  "env_a2 = example_env [(''/home/workspace/a/.brev/ports.yaml'', manifest_a2)]"

definition env_a2_b1 :: Env where
  "env_a2_b1 = example_env [(''/home/workspace/a/.brev/ports.yaml'', manifest_a2),
                            (''/home/workspace/b/.brev/ports.yaml'', manifest_a1)]"

definition directory_two :: PublicPorts where
  "directory_two =
     putFile env_a2_b1 (putFile env_a2 started ''a/.brev/ports.yaml'') ''b/.brev/ports.yaml''"

text \<open>Requests of a browser page and of a script, for a host, a method and a path.\<close>

definition html_request :: "string \<Rightarrow> string \<Rightarrow> string \<Rightarrow> Request" where
  "html_request h m p =
     \<lparr>host = Some h, accept = Some ''text/html,application/xhtml+xml'', path = p, req_method = m,
      baseUrl = [], originalUrl = p,
      args = \<lparr>proxy_domain = [''example.com''], proxy_port_separator = None\<rparr>\<rparr>"

definition json_request :: "string \<Rightarrow> string \<Rightarrow> string \<Rightarrow> Request" where
  "json_request h m p = (html_request h m p)\<lparr>accept := Some ''application/json''\<rparr>"

text \<open>
  The manifest \<open>.brev/ports.yaml\<close> at the root of the workspace, in four states: the bare
  port \<open>"8000"\<close>, the unquoted number, a text that is not YAML, and the empty text. And the
  directory after the watcher has added the first.
\<close>

definition env_8000 :: Env where
  "env_8000 = example_env [(''/home/workspace/.brev/ports.yaml'', manifest_8000)]"

definition env_unquoted :: Env where
  "env_unquoted = example_env [(''/home/workspace/.brev/ports.yaml'', manifest_unquoted)]"

definition env_broken :: Env where
  "env_broken = example_env [(''/home/workspace/.brev/ports.yaml'', manifest_broken)]"

definition env_empty :: Env where
  "env_empty = example_env [(''/home/workspace/.brev/ports.yaml'', [])]"

definition directory_8000 :: PublicPorts where
  "directory_8000 = putFile env_8000 started ''.brev/ports.yaml''"

section \<open>Splitting and joining\<close>

lemma js_split_not_Nil: "js_split c s \<noteq> []"
  by (induction s) (auto split: list.splits)

lemma js_join_split: "js_join c (js_split c s) = s"
proof (induction s)
  case Nil
  then show ?case by simp
next
  case (Cons x xs)
  obtain p ps where ps: "js_split c xs = p # ps"
    using js_split_not_Nil [of c xs] by (cases "js_split c xs") auto
  show ?case
  proof (cases "x = c")
    case True
    with ps Cons show ?thesis by simp
  next
    case False
    with ps Cons show ?thesis by (cases ps) auto
  qed
qed

lemma js_split_hd_no_sep: "js_split c s = p # ps \<Longrightarrow> c \<notin> set p"
  by (induction s arbitrary: p ps) (auto split: if_splits list.splits)

lemma js_split_no_sep: "c \<notin> set tok \<Longrightarrow> js_split c tok = [tok]"
  by (induction tok) auto

lemma js_split_append:
  "c \<notin> set tok \<Longrightarrow> js_split c (tok @ c # rest) = tok # js_split c rest"
  by (induction tok) auto

lemma indexOf_takeWhile:
  "(case indexOf h c of None \<Rightarrow> h | Some idx \<Rightarrow> take idx h) = takeWhile (\<lambda>x. x \<noteq> c) h"
  by (induction h) (auto split: option.splits)

section \<open>The host router\<close>

lemma maybeProxy_unfold:
  "maybeProxy req =
     (let sep = (if proxy_port_separator (args req) = Some ''dash''
                 then CHR ''-'' else CHR ''.'');
          domain = takeWhile (\<lambda>c. c \<noteq> CHR '':'')
                     (case host req of None \<Rightarrow> [] | Some h \<Rightarrow> h)
      in case js_split sep domain of
           [] \<Rightarrow> None
         | port # parts \<Rightarrow>
             if port = [] \<or> js_join sep parts \<notin> set (proxy_domain (args req))
             then None else Some port)"
  unfolding maybeProxy_def Let_def indexOf_takeWhile ..

lemma split_match_iff:
  "(case js_split sep domain of
      [] \<Rightarrow> None
    | port # parts \<Rightarrow>
        if port = [] \<or> js_join sep parts \<notin> S then None else Some port) = Some tok
   \<longleftrightarrow> tok \<noteq> [] \<and> sep \<notin> set tok \<and>
       ((domain = tok \<and> [] \<in> S) \<or> (\<exists>suffix\<in>S. domain = tok @ sep # suffix))"
  (is "?L \<longleftrightarrow> ?R")
proof
  assume L: ?L
  obtain p ps where ps: "js_split sep domain = p # ps"
    using js_split_not_Nil [of sep domain] by (cases "js_split sep domain") auto
  from L ps have tok: "p = tok" "tok \<noteq> []" "js_join sep ps \<in> S"
    by (auto split: if_splits)
  have nosep: "sep \<notin> set tok"
    using js_split_hd_no_sep [OF ps] tok by simp
  have dom: "domain = js_join sep (p # ps)"
    using js_join_split [of sep domain] ps by simp
  show ?R
  proof (cases ps)
    case Nil
    with dom tok nosep show ?thesis by simp
  next
    case (Cons q qs)
    with dom tok have "domain = tok @ sep # js_join sep ps" by simp
    with tok nosep show ?thesis by blast
  qed
next
  assume R: ?R
  then have tok: "tok \<noteq> []" "sep \<notin> set tok" by auto
  from R consider "domain = tok" "[] \<in> S"
    | suffix where "suffix \<in> S" "domain = tok @ sep # suffix" by blast
  then show ?L
  proof cases
    case 1
    with tok show ?thesis by (simp add: js_split_no_sep)
  next
    case 2
    with tok show ?thesis by (simp add: js_split_append js_join_split)
  qed
qed

text \<open>
  C3, as the code has it. With the \<open>:port\<close> suffix stripped, the router returns the
  first segment as the token exactly when that segment is not empty and the remaining
  segments, rejoined with the separator, are one of the configured suffixes. Put without
  segments: exactly when the host name is the token, non-empty and free of the
  separator, followed by the separator and one of the configured suffixes (or, for the
  empty suffix, the token alone). So \<open>8080.example.com\<close> yields \<open>8080\<close> for the suffix
  \<open>example.com\<close>, and neither \<open>8080.sub.example.com\<close> nor \<open>sub.8080.example.com\<close> matches.
\<close>

theorem maybeProxy_exact:
  "(maybeProxy req = Some tok \<longleftrightarrow>
      (let sep = (if proxy_port_separator (args req) = Some ''dash''
                  then CHR ''-'' else CHR ''.'');
           domain = takeWhile (\<lambda>c. c \<noteq> CHR '':'')
                      (case host req of None \<Rightarrow> [] | Some h \<Rightarrow> h);
           parts = js_split sep domain
       in tok = hd parts \<and> tok \<noteq> [] \<and>
          js_join sep (tl parts) \<in> set (proxy_domain (args req)))) \<and>
   (maybeProxy req = Some tok \<longleftrightarrow>
      (let sep = (if proxy_port_separator (args req) = Some ''dash''
                  then CHR ''-'' else CHR ''.'');
           domain = takeWhile (\<lambda>c. c \<noteq> CHR '':'')
                      (case host req of None \<Rightarrow> [] | Some h \<Rightarrow> h)
       in tok \<noteq> [] \<and> sep \<notin> set tok \<and>
          ((domain = tok \<and> [] \<in> set (proxy_domain (args req))) \<or>
           (\<exists>suffix\<in>set (proxy_domain (args req)). domain = tok @ sep # suffix)))) \<and>
   maybeProxy (example_request ''8080.example.com'') = Some ''8080'' \<and>
   maybeProxy (example_request ''8080.sub.example.com'') = None \<and>
   maybeProxy (example_request ''sub.8080.example.com'') = None"
proof -
  have segments: "maybeProxy req = Some tok \<longleftrightarrow>
      (let sep = (if proxy_port_separator (args req) = Some ''dash''
                  then CHR ''-'' else CHR ''.'');
           domain = takeWhile (\<lambda>c. c \<noteq> CHR '':'')
                      (case host req of None \<Rightarrow> [] | Some h \<Rightarrow> h);
           parts = js_split sep domain
       in tok = hd parts \<and> tok \<noteq> [] \<and>
          js_join sep (tl parts) \<in> set (proxy_domain (args req)))"
    unfolding maybeProxy_unfold Let_def
    by (auto split: list.splits simp: js_split_not_Nil)
  have general: "maybeProxy req = Some tok \<longleftrightarrow>
      (let sep = (if proxy_port_separator (args req) = Some ''dash''
                  then CHR ''-'' else CHR ''.'');
           domain = takeWhile (\<lambda>c. c \<noteq> CHR '':'')
                      (case host req of None \<Rightarrow> [] | Some h \<Rightarrow> h)
       in tok \<noteq> [] \<and> sep \<notin> set tok \<and>
          ((domain = tok \<and> [] \<in> set (proxy_domain (args req))) \<or>
           (\<exists>suffix\<in>set (proxy_domain (args req)). domain = tok @ sep # suffix)))"
    unfolding maybeProxy_unfold Let_def by (rule split_match_iff)
  have e1: "maybeProxy (example_request ''8080.example.com'') = Some ''8080''"
    by (simp add: maybeProxy_def example_request_def)
  have e2: "maybeProxy (example_request ''8080.sub.example.com'') = None"
    by (simp add: maybeProxy_def example_request_def)
  have e3: "maybeProxy (example_request ''sub.8080.example.com'') = None"
    by (simp add: maybeProxy_def example_request_def)
  from segments general e1 e2 e3 show ?thesis by blast
qed

theorem maybeProxy_exact_witness:
  "maybeProxy (example_request ''3000.example.com:8443'') = Some ''3000'' \<and>
   ''3000.example.com'' = ''3000'' @ CHR ''.'' # ''example.com''"
  using maybeProxy_exact [of "example_request ''3000.example.com:8443''" "''3000''"]
  by (simp add: example_request_def)

text \<open>
  The claim as it is written fails where the first segment is empty: for the host
  \<open>.example.com\<close> the remaining segments rejoined are the configured suffix, and the
  router returns no token.
\<close>

theorem maybeProxy_empty_first_segment_counterexample:
  "js_join CHR ''.'' (tl (js_split CHR ''.'' ''.example.com'')) \<in> set [''example.com''] \<and>
   maybeProxy (example_request ''.example.com'') = None"
  by (simp add: maybeProxy_def example_request_def)

section \<open>The merged directory\<close>

lemma set_foldl_pushNew: "set (foldl pushNew prev ps) = set prev \<union> set ps"
  by (induction ps arbitrary: prev) (auto simp: pushNew_def)

lemma mergeInto_Inr:
  "mergeInto prev docs = Inr m \<Longrightarrow>
   list_all has_ports docs \<and> set m = set prev \<union> set (concat (map entries docs))"
  by (induction prev docs rule: mergeInto.induct) (auto simp: set_foldl_pushNew)

lemma mergeInto_returns:
  "list_all has_ports docs \<Longrightarrow> \<exists>m. mergeInto prev docs = Inr m"
  by (induction prev docs rule: mergeInto.induct) simp_all

lemma mergeInto_fails:
  "\<not> list_all has_ports docs \<Longrightarrow> \<exists>msg. mergeInto prev docs = Inl (TypeError msg)"
  by (induction prev docs rule: mergeInto.induct) simp_all

lemma foldl_putMapping_Some:
  "foldl putMapping m es k = Some v \<Longrightarrow>
   m k = Some v \<or> (\<exists>e\<in>set es. parsePortOrPortMapping e = Some (k, v))"
proof (induction es arbitrary: m)
  case Nil
  then show ?case by simp
next
  case (Cons e es)
  from Cons.prems have "foldl putMapping (putMapping m e) es k = Some v" by simp
  from Cons.IH [OF this] show ?case
    by (auto simp: putMapping_def split: option.splits if_splits)
qed

lemma foldl_putMapping_keeps:
  "m k \<noteq> None \<Longrightarrow> foldl putMapping m es k \<noteq> None"
proof (induction es arbitrary: m)
  case Nil
  then show ?case by simp
next
  case (Cons e es)
  have "putMapping m e k \<noteq> None"
    using Cons.prems by (auto simp: putMapping_def split: option.splits)
  then have "foldl putMapping (putMapping m e) es k \<noteq> None"
    by (rule Cons.IH [of "putMapping m e"])
  then show ?case by simp
qed

lemma foldl_putMapping_declared:
  "e \<in> set es \<Longrightarrow> parsePortOrPortMapping e = Some (k, v) \<Longrightarrow>
   foldl putMapping m es k \<noteq> None"
proof (induction es arbitrary: m)
  case Nil
  then show ?case by simp
next
  case (Cons x xs)
  show ?case
  proof (cases "x = e")
    case True
    with Cons.prems have "putMapping m x k \<noteq> None" by (simp add: putMapping_def)
    then show ?thesis using foldl_putMapping_keeps by simp
  next
    case False
    with Cons show ?thesis by simp
  qed
qed

lemma well_formed_iff: "well_formed this \<longleftrightarrow> list_all has_ports (map snd (portFiles this))"
  by (simp add: well_formed_def list_all_iff case_prod_beta)

lemma tracked_entries_eq:
  "tracked_entries this = concat (map entries (map snd (portFiles this)))"
  by (simp add: tracked_entries_def case_prod_unfold comp_def)

text \<open>
  When the directory is built, the watcher has been started, every tracked document has
  a \<open>ports\<close> array, and the keys of the directory are the keys the tracked entries declare.
\<close>

lemma getPublicPorts_Inr:
  assumes "getPublicPorts this = Inr ports"
  shows "searchPath this \<noteq> None \<and> well_formed this \<and>
         (\<forall>k v. ports k = Some v \<longrightarrow> declares this k v) \<and>
         (\<forall>k. ports k = None \<longleftrightarrow> (\<forall>v. \<not> declares this k v))"
proof -
  from assms obtain m where sp: "searchPath this \<noteq> None"
    and m: "mergeInto [] (map snd (portFiles this)) = Inr m"
    and p: "ports = portFileToPorts m"
    by (auto simp: getPublicPorts_def mergePortFiles_def split: option.splits sum.splits)
  from mergeInto_Inr [OF m] have wf: "well_formed this"
    and te: "set m = set (tracked_entries this)"
    by (simp_all add: well_formed_iff tracked_entries_eq)
  have a: "declares this k v" if "ports k = Some v" for k v
    using foldl_putMapping_Some [of Map.empty m k v] that te p
    by (auto simp: portFileToPorts_def declares_def list_ex_iff)
  have b: "ports k \<noteq> None" if "declares this k v" for k v
    using that te p foldl_putMapping_declared [of _ m k v Map.empty]
    by (auto simp: portFileToPorts_def declares_def list_ex_iff)
  from sp wf a b show ?thesis by (metis option.exhaust)
qed

lemma getPublicPorts_returns:
  assumes "searchPath this = Some sp" and "well_formed this"
  shows "\<exists>ports. getPublicPorts this = Inr ports"
proof -
  obtain m where "mergeInto [] (map snd (portFiles this)) = Inr m"
    using mergeInto_returns assms(2) well_formed_iff by blast
  with assms(1) show ?thesis by (simp add: getPublicPorts_def mergePortFiles_def)
qed

lemma getPublicPort_returns:
  assumes "searchPath this = Some sp" and "well_formed this"
  shows "\<exists>found. getPublicPort this tok = Inr found"
  using getPublicPorts_returns [OF assms] by (auto simp: getPublicPort_def)

text \<open>
  A tracked document without a \<open>ports\<close> array (an empty YAML file, or a manifest that
  only gives a \<open>version\<close>) makes every lookup raise a \<open>TypeError\<close>.
\<close>

lemma getPublicPort_TypeError:
  assumes "searchPath this = Some sp" and "\<not> well_formed this"
  shows "\<exists>msg. getPublicPort this tok = Inl (TypeError msg)"
proof -
  obtain msg where "mergeInto [] (map snd (portFiles this)) = Inl (TypeError msg)"
    using mergeInto_fails assms(2) well_formed_iff by blast
  with assms(1) show ?thesis
    by (simp add: getPublicPort_def getPublicPorts_def mergePortFiles_def)
qed

lemma parse_valid_port:
  "parsePortOrPortMapping e = Some (k, v) \<Longrightarrow> validatePort v = Some v"
  by (auto simp: parsePortOrPortMapping_def validatePort_def Let_def
      split: if_splits option.splits)

text \<open>The three results a lookup can return.\<close>

lemma getPublicPort_cases:
  assumes "getPublicPort this tok = Inr found"
  shows "(found = None \<and> tok \<notin> set Object_prototype \<and> (\<forall>v. \<not> declares this tok v)) \<or>
         (found = Some (Inherited tok) \<and> tok \<in> set Object_prototype \<and>
            (\<forall>v. \<not> declares this tok v)) \<or>
         (\<exists>v. found = Some (Str v) \<and> declares this tok v)"
proof -
  from assms obtain ports where g: "getPublicPorts this = Inr ports"
    and f: "found = js_get ports tok"
    by (auto simp: getPublicPort_def split: sum.splits)
  from getPublicPorts_Inr [OF g] f show ?thesis
    by (cases "ports tok") (auto simp: js_get_def)
qed

text \<open>An own property of the directory is a validated port.\<close>

lemma getPublicPort_Str_is_port:
  assumes "getPublicPort this tok = Inr (Some (Str p))"
  shows "validatePort p = Some p"
proof -
  from getPublicPort_cases [OF assms] have "declares this tok p" by auto
  then obtain e where "parsePortOrPortMapping e = Some (tok, p)"
    by (auto simp: declares_def list_ex_iff)
  then show ?thesis by (rule parse_valid_port)
qed

section \<open>Querying before the watcher is started\<close>

text \<open>Only \<open>startWatch\<close> sets the search path; the watcher's events leave it as it is.\<close>

lemma searchPath_putFile: "searchPath (putFile env this relPath) = searchPath this"
  by (simp add: putFile_def split: option.splits)

lemma searchPath_deleteFile: "searchPath (deleteFile env this relPath) = searchPath this"
  by (simp add: deleteFile_def)

lemma searchPath_startWatch: "searchPath (startWatch this p) = Some p"
  by (simp add: startWatch_def)

text \<open>
  C6. For every token, a lookup in a directory whose \<open>startWatch\<close> has not been called
  raises the explicit error; it returns neither a port nor \<open>null\<close>.
\<close>

theorem getPublicPort_before_startWatch:
  assumes "searchPath this = None"
  shows "getPublicPort this portOrAlias =
           Inl (Error ''searchPath not defined -- startWatch not yet called'')"
  using assms by (simp add: getPublicPort_def getPublicPorts_def)

theorem getPublicPort_before_startWatch_witness:
  "searchPath new_PublicPorts = None \<and>
   getPublicPort new_PublicPorts ''8080'' =
     Inl (Error ''searchPath not defined -- startWatch not yet called'')"
proof -
  have h: "searchPath new_PublicPorts = None"
    by (simp add: new_PublicPorts_def)
  show ?thesis
    using h getPublicPort_before_startWatch [OF h, of "''8080''"] by simp
qed

section \<open>Which tokens are public\<close>

text \<open>
  C1, as the code has it. On a started directory whose tracked documents all have a
  \<open>ports\<close> array, and for a token that is not the name of a member inherited from
  \<open>Object.prototype\<close>: the lookup returns, and the token is public exactly when some
  tracked entry passes validation with the token as its key, that is, the token is a
  bare port entry or the alias side of an alias mapping. A token that is the key of no
  entry (one that occurs only as the target port of alias mappings, for instance) is
  not public, and no unauthenticated request for it is forwarded.
\<close>

theorem portIsPublic_iff_declared:
  assumes "searchPath this = Some sp" and "well_formed this"
    and "tok \<notin> set Object_prototype"
  shows "\<exists>found. getPublicPort this tok = Inr found \<and>
           ((found \<noteq> None) = (\<exists>port. declares this tok port)) \<and>
           (found = None \<longrightarrow>
              (\<forall>req target. maybeProxy req = Some tok \<longrightarrow>
                 router_all normalize_fn this False req \<noteq> Inr (ProxyWeb target)))"
proof -
  obtain found where f: "getPublicPort this tok = Inr found"
    using getPublicPort_returns [OF assms(1,2)] by blast
  from getPublicPort_cases [OF f] assms(3)
  have iff: "(found \<noteq> None) = (\<exists>port. declares this tok port)" by auto
  have gate: "router_all normalize_fn this False req \<noteq> Inr (ProxyWeb target)"
    if "found = None" "maybeProxy req = Some tok" for req target
    using that f by (simp add: router_all_def Let_def)
  show ?thesis
  proof (intro exI [of _ found] conjI impI allI)
    show "getPublicPort this tok = Inr found" by (rule f)
    show "(found \<noteq> None) = (\<exists>port. declares this tok port)" by (rule iff)
    show "router_all normalize_fn this False req \<noteq> Inr (ProxyWeb target)"
      if "found = None" "maybeProxy req = Some tok" for req target
      using that by (rule gate)
  qed
qed

theorem portIsPublic_iff_declared_witness:
  "searchPath directory_alias = Some ''/home/workspace'' \<and> well_formed directory_alias \<and>
   ''8080'' \<notin> set Object_prototype \<and>
   getPublicPort directory_alias ''8080'' = Inr None \<and>
   \<not> declares directory_alias ''8080'' ''8080'' \<and>
   router_all (\<lambda>u. u) directory_alias False (example_request ''8080.example.com'') =
     Inl (HttpError ''Unauthorized'' Unauthorized)"
proof -
  have h1: "searchPath directory_alias = Some ''/home/workspace''" by code_simp
  have h2: "well_formed directory_alias" by code_simp
  have h3: "''8080'' \<notin> set Object_prototype" by code_simp
  have c1: "getPublicPort directory_alias ''8080'' = Inr None" by code_simp
  have c2: "router_all (\<lambda>u. u) directory_alias False (example_request ''8080.example.com'') =
     Inl (HttpError ''Unauthorized'' Unauthorized)" by code_simp
  from portIsPublic_iff_declared [OF h1 h2 h3, of "\<lambda>u. u"] c1
  have "\<not> declares directory_alias ''8080'' ''8080''" by auto
  with h1 h2 h3 c1 c2 show ?thesis by simp
qed

text \<open>
  The claim as it is written fails for an alias: \<open>myserver\<close> is no bare port entry of any
  tracked document, it is only the alias side of \<open>myserver:8080\<close>, and yet the lookup
  finds it, so an unauthenticated request for it is forwarded to port 8080.
\<close>

theorem alias_is_public_counterexample:
  "tracked_entries directory_alias = [''myserver:8080''] \<and>
   ''myserver'' \<notin> set (tracked_entries directory_alias) \<and>
   getPublicPort directory_alias ''myserver'' = Inr (Some (Str ''8080'')) \<and>
   router_all (\<lambda>u. u) directory_alias False (example_request ''myserver.example.com'') =
     Inr (ProxyWeb ''http://0.0.0.0:8080/'')"
  by code_simp

section \<open>What a lookup can return\<close>

text \<open>
  For a token that is not the name of a member inherited from \<open>Object.prototype\<close>, a
  result other than \<open>null\<close> is a string that passes the validation of a port.
\<close>

lemma getPublicPort_own_token_is_port:
  assumes "getPublicPort this tok = Inr (Some v)" and "tok \<notin> set Object_prototype"
  shows "\<exists>p. v = Str p \<and> validatePort p = Some p"
proof -
  from getPublicPort_cases [OF assms(1)] assms(2)
  obtain p where "v = Str p" by auto
  with assms(1) getPublicPort_Str_is_port [of this tok p] show ?thesis by simp
qed

text \<open>
  C10 at the token \<open>constructor\<close>. The directory is an object literal, so the property read
  finds the member it inherits from \<open>Object.prototype\<close>: the lookup returns a function,
  which is neither \<open>null\<close> nor a string of digits, on a directory with no tracked document.
  The router then takes the token for public and builds the target from the function.
\<close>

theorem getPublicPort_inherited_constructor:
  "getPublicPort started ''constructor'' = Inr (Some (Inherited ''constructor'')) \<and>
   router_all (\<lambda>u. u) started False (example_request ''constructor.example.com'') =
     Inr (ProxyWeb ''http://0.0.0.0:function Object() { [native code] }/'')"
  by code_simp

section \<open>Removing a tracked file\<close>

lemma portFiles_deleteFile:
  "didMatchGlob env this relPath \<Longrightarrow>
   portFiles (deleteFile env this relPath) = filter (\<lambda>(p, d). p \<noteq> relPath) (portFiles this)"
  by (auto simp: deleteFile_def AList.delete_eq case_prod_unfold intro!: filter_cong)

text \<open>
  C8, as the code has it. After the unlink event for a path the glob accepts, the tracked
  documents are the ones of the other paths. If they all have a \<open>ports\<close> array, then for a
  token that is not the name of a member inherited from \<open>Object.prototype\<close>: a token that no
  remaining entry declares resolves to \<open>null\<close>, and a token that a remaining entry declares
  resolves to a port that a remaining entry declares for it.
\<close>

theorem deleteFile_consistency:
  assumes "didMatchGlob env this relPath" and "searchPath this = Some sp"
    and "well_formed (deleteFile env this relPath)" and "tok \<notin> set Object_prototype"
  shows "portFiles (deleteFile env this relPath) =
           filter (\<lambda>(p, d). p \<noteq> relPath) (portFiles this) \<and>
         ((\<forall>port. \<not> declares (deleteFile env this relPath) tok port) \<longrightarrow>
            getPublicPort (deleteFile env this relPath) tok = Inr None) \<and>
         ((\<exists>port. declares (deleteFile env this relPath) tok port) \<longrightarrow>
            (\<exists>port. declares (deleteFile env this relPath) tok port \<and>
                    getPublicPort (deleteFile env this relPath) tok = Inr (Some (Str port))))"
proof -
  let ?after = "deleteFile env this relPath"
  have sp: "searchPath ?after = Some sp"
    using assms(2) by (simp add: searchPath_deleteFile)
  obtain found where f: "getPublicPort ?after tok = Inr found"
    using getPublicPort_returns [OF sp assms(3)] by blast
  from getPublicPort_cases [OF f] assms(4)
  have cases: "(found = None \<and> (\<forall>v. \<not> declares ?after tok v)) \<or>
               (\<exists>v. found = Some (Str v) \<and> declares ?after tok v)" by auto
  have a: "getPublicPort ?after tok = Inr None" if "\<forall>port. \<not> declares ?after tok port"
    using that cases f by auto
  have b: "\<exists>port. declares ?after tok port \<and> getPublicPort ?after tok = Inr (Some (Str port))"
    if "\<exists>port. declares ?after tok port"
    using that cases f by auto
  from portFiles_deleteFile [OF assms(1)] a b show ?thesis by blast
qed

theorem deleteFile_consistency_witness:
  "didMatchGlob env_a2 directory_two ''a/.brev/ports.yaml'' \<and>
   searchPath directory_two = Some ''/home/workspace'' \<and>
   well_formed (deleteFile env_a2 directory_two ''a/.brev/ports.yaml'') \<and>
   ''a'' \<notin> set Object_prototype \<and>
   declares (deleteFile env_a2 directory_two ''a/.brev/ports.yaml'') ''a'' ''1'' \<and>
   getPublicPort (deleteFile env_a2 directory_two ''a/.brev/ports.yaml'') ''a'' =
     Inr (Some (Str ''1'')) \<and>
   getPublicPort (deleteFile env_a2 directory_two ''a/.brev/ports.yaml'') ''8000'' = Inr None"
proof -
  let ?after = "deleteFile env_a2 directory_two ''a/.brev/ports.yaml''"
  have h1: "didMatchGlob env_a2 directory_two ''a/.brev/ports.yaml''" by code_simp
  have h2: "searchPath directory_two = Some ''/home/workspace''" by code_simp
  have h3: "well_formed ?after" by code_simp
  have h4: "''a'' \<notin> set Object_prototype" by code_simp
  have h5: "''8000'' \<notin> set Object_prototype" by code_simp
  have d1: "declares ?after ''a'' ''1''" by code_simp
  have d2: "getPublicPort ?after ''a'' = Inr (Some (Str ''1''))" by code_simp
  have te: "tracked_entries ?after = [''a:1'']" by code_simp
  have nd: "\<forall>port. \<not> declares ?after ''8000'' port"
    unfolding declares_def te
    by (simp add: parsePortOrPortMapping_def validatePortOrAlias_def validatePort_def
        is_lower_alnum_def is_digit_def)
  from deleteFile_consistency [OF h1 h2 h3 h5] nd
  have "getPublicPort ?after ''8000'' = Inr None" by blast
  with h1 h2 h3 h4 d1 d2 show ?thesis by simp
qed

text \<open>
  The claim as it is written fails for the port: \<open>a\<close> is declared by both files, resolves
  to \<open>1\<close> (the entry of the file added last) before \<open>b/.brev/ports.yaml\<close> is removed, and
  to \<open>2\<close> afterwards.
\<close>

theorem deleteFile_changes_port_counterexample:
  "getPublicPort directory_two ''a'' = Inr (Some (Str ''1'')) \<and>
   declares (deleteFile env_a2 directory_two ''b/.brev/ports.yaml'') ''a'' ''2'' \<and>
   getPublicPort (deleteFile env_a2 directory_two ''b/.brev/ports.yaml'') ''a'' =
     Inr (Some (Str ''2''))"
  by code_simp

section \<open>The authorization gate\<close>

text \<open>
  C4. For a request the host router matched and a lookup that returned, the handler
  follows the decision table, its rows read in order: a public port is forwarded without
  authentication; an authenticated request is forwarded whatever the port; otherwise a
  \<open>GET\<close> below \<open>/static/\<close> is let through (handed to the next handler); a request that
  accepts \<open>text/html\<close> is let through on a login path and, unless it is such a \<open>GET\<close>,
  redirected to the login on any other path, the target being the normalized path and
  left out exactly when that is \<open>/\<close>; every remaining request is refused as unauthorized.
\<close>

theorem authorization_decision_table:
  assumes "maybeProxy req = Some port" and "getPublicPort this port = Inr found"
  shows "(\<forall>p. \<not> isAuthenticated \<and> found = Some p \<longrightarrow>
            router_all normalize_fn this isAuthenticated req =
              Inr (ProxyWeb (proxy_target p req))) \<and>
         (isAuthenticated \<longrightarrow>
            router_all normalize_fn this isAuthenticated req =
              Inr (ProxyWeb
                     (proxy_target (case found of None \<Rightarrow> Str port | Some p \<Rightarrow> p) req))) \<and>
         (\<not> isAuthenticated \<and> found = None \<and>
          startsWith (path req) ''/static/'' \<and> req_method req = ''GET'' \<longrightarrow>
            router_all normalize_fn this isAuthenticated req = Inr Next) \<and>
         (\<not> isAuthenticated \<and> found = None \<and>
          accepts_html req \<and> login_test (path req) \<longrightarrow>
            router_all normalize_fn this isAuthenticated req = Inr Next) \<and>
         (\<not> isAuthenticated \<and> found = None \<and>
          \<not> (startsWith (path req) ''/static/'' \<and> req_method req = ''GET'') \<and>
          accepts_html req \<and> \<not> login_test (path req) \<longrightarrow>
            router_all normalize_fn this isAuthenticated req =
              Inr (Redirect ''login''
                     (if normalize_fn (baseUrl req @ path req) = ''/'' then None
                      else Some (normalize_fn (baseUrl req @ path req))))) \<and>
         (\<not> isAuthenticated \<and> found = None \<and>
          \<not> (startsWith (path req) ''/static/'' \<and> req_method req = ''GET'') \<and>
          \<not> accepts_html req \<longrightarrow>
            router_all normalize_fn this isAuthenticated req =
              Inl (HttpError ''Unauthorized'' Unauthorized))"
  using assms by (simp add: router_all_def Let_def)

theorem authorization_decision_table_witness:
  "router_all (\<lambda>u. u) directory_8000 False
       (json_request ''8000.example.com'' ''POST'' ''/api'') =
     Inr (ProxyWeb ''http://0.0.0.0:8000/api'') \<and>
   router_all (\<lambda>u. u) directory_8000 True
       (json_request ''3000.example.com'' ''POST'' ''/api'') =
     Inr (ProxyWeb ''http://0.0.0.0:3000/api'') \<and>
   router_all (\<lambda>u. u) directory_8000 False
       (json_request ''3000.example.com'' ''GET'' ''/static/login.css'') = Inr Next \<and>
   router_all (\<lambda>u. u) directory_8000 False
       (html_request ''3000.example.com'' ''GET'' ''/login'') = Inr Next \<and>
   router_all (\<lambda>u. u) directory_8000 False
       (html_request ''3000.example.com'' ''GET'' ''/foo'') =
     Inr (Redirect ''login'' (Some ''/foo'')) \<and>
   router_all (\<lambda>u. u) directory_8000 False
       (html_request ''3000.example.com'' ''GET'' ''/'') =
     Inr (Redirect ''login'' None) \<and>
   router_all (\<lambda>u. u) directory_8000 False
       (json_request ''3000.example.com'' ''GET'' ''/foo'') =
     Inl (HttpError ''Unauthorized'' Unauthorized)"
proof -
  have g1: "getPublicPort directory_8000 ''8000'' = Inr (Some (Str ''8000''))"
    by code_simp
  have g2: "getPublicPort directory_8000 ''3000'' = Inr None"
    by code_simp
  have m1: "maybeProxy (json_request ''8000.example.com'' ''POST'' ''/api'') = Some ''8000''"
    by code_simp
  have m2: "maybeProxy (json_request ''3000.example.com'' ''POST'' ''/api'') = Some ''3000''"
    by code_simp
  have m3: "maybeProxy (json_request ''3000.example.com'' ''GET'' ''/static/login.css'') =
              Some ''3000''"
    by code_simp
  have m4: "maybeProxy (html_request ''3000.example.com'' ''GET'' ''/login'') = Some ''3000''"
    by code_simp
  have m5: "maybeProxy (html_request ''3000.example.com'' ''GET'' ''/foo'') = Some ''3000''"
    by code_simp
  have m6: "maybeProxy (html_request ''3000.example.com'' ''GET'' ''/'') = Some ''3000''"
    by code_simp
  have m7: "maybeProxy (json_request ''3000.example.com'' ''GET'' ''/foo'') = Some ''3000''"
    by code_simp
  have r1: "router_all (\<lambda>u. u) directory_8000 False
              (json_request ''8000.example.com'' ''POST'' ''/api'') =
            Inr (ProxyWeb ''http://0.0.0.0:8000/api'')"
    using authorization_decision_table [OF m1 g1, of False "\<lambda>u. u"]
    by (simp add: proxy_target_def json_request_def html_request_def)
  have r2: "router_all (\<lambda>u. u) directory_8000 True
              (json_request ''3000.example.com'' ''POST'' ''/api'') =
            Inr (ProxyWeb ''http://0.0.0.0:3000/api'')"
    using authorization_decision_table [OF m2 g2, of True "\<lambda>u. u"]
    by (simp add: proxy_target_def json_request_def html_request_def)
  have r3: "router_all (\<lambda>u. u) directory_8000 False
              (json_request ''3000.example.com'' ''GET'' ''/static/login.css'') = Inr Next"
    using authorization_decision_table [OF m3 g2, of False "\<lambda>u. u"]
    by (simp add: json_request_def html_request_def startsWith_def)
  have r4: "router_all (\<lambda>u. u) directory_8000 False
              (html_request ''3000.example.com'' ''GET'' ''/login'') = Inr Next"
    using authorization_decision_table [OF m4 g2, of False "\<lambda>u. u"]
    by (simp add: html_request_def startsWith_def accepts_html_def login_test_def)
  have r5: "router_all (\<lambda>u. u) directory_8000 False
              (html_request ''3000.example.com'' ''GET'' ''/foo'') =
            Inr (Redirect ''login'' (Some ''/foo''))"
    using authorization_decision_table [OF m5 g2, of False "\<lambda>u. u"]
    by (simp add: html_request_def startsWith_def accepts_html_def login_test_def)
  have r6: "router_all (\<lambda>u. u) directory_8000 False
              (html_request ''3000.example.com'' ''GET'' ''/'') =
            Inr (Redirect ''login'' None)"
    using authorization_decision_table [OF m6 g2, of False "\<lambda>u. u"]
    by (simp add: html_request_def startsWith_def accepts_html_def login_test_def)
  have r7: "router_all (\<lambda>u. u) directory_8000 False
              (json_request ''3000.example.com'' ''GET'' ''/foo'') =
            Inl (HttpError ''Unauthorized'' Unauthorized)"
    using authorization_decision_table [OF m7 g2, of False "\<lambda>u. u"]
    by (simp add: json_request_def html_request_def startsWith_def accepts_html_def)
  from r1 r2 r3 r4 r5 r6 r7 show ?thesis by simp
qed

section \<open>The forwarded port\<close>

text \<open>
  C5. For a token the host router extracted and a request that is forwarded: when the
  lookup returns \<open>null\<close> (a result, not an error) the target's port is the token itself,
  and when it returns a port the target's port is that port, which a tracked entry
  declares for exactly this token (keys are compared as they are written).
\<close>

theorem forwarded_port_fallback:
  assumes "maybeProxy req = Some port" and "getPublicPort this port = Inr found"
    and "isAuthenticated \<or> found \<noteq> None"
  shows "(found = None \<longrightarrow>
            router_all normalize_fn this isAuthenticated req =
              Inr (ProxyWeb (''http://0.0.0.0:'' @ port @ originalUrl req)) \<and>
            wsRouter_ws this isAuthenticated req =
              Inr (ProxyWs (''http://0.0.0.0:'' @ port @ originalUrl req))) \<and>
         (\<forall>p. found = Some (Str p) \<longrightarrow>
            router_all normalize_fn this isAuthenticated req =
              Inr (ProxyWeb (''http://0.0.0.0:'' @ p @ originalUrl req)) \<and>
            wsRouter_ws this isAuthenticated req =
              Inr (ProxyWs (''http://0.0.0.0:'' @ p @ originalUrl req)) \<and>
            declares this port p)"
proof -
  have "declares this port p" if "found = Some (Str p)" for p
    using getPublicPort_cases [OF assms(2)] that by auto
  with assms show ?thesis
    by (auto simp: router_all_def wsRouter_ws_def Let_def proxy_target_def)
qed

theorem forwarded_port_fallback_witness:
  "getPublicPort directory_alias ''3000'' = Inr None \<and>
   router_all (\<lambda>u. u) directory_alias True
       (json_request ''3000.example.com'' ''GET'' ''/api?x=1'') =
     Inr (ProxyWeb ''http://0.0.0.0:3000/api?x=1'') \<and>
   getPublicPort directory_alias ''myserver'' = Inr (Some (Str ''8080'')) \<and>
   wsRouter_ws directory_alias False
       (json_request ''myserver.example.com'' ''GET'' ''/socket'') =
     Inr (ProxyWs ''http://0.0.0.0:8080/socket'') \<and>
   getPublicPort directory_alias ''MYSERVER'' = Inr None \<and>
   router_all (\<lambda>u. u) directory_alias True
       (json_request ''MYSERVER.example.com'' ''GET'' ''/'') =
     Inr (ProxyWeb ''http://0.0.0.0:MYSERVER/'')"
proof -
  have m1: "maybeProxy (json_request ''3000.example.com'' ''GET'' ''/api?x=1'') = Some ''3000''"
    by code_simp
  have g1: "getPublicPort directory_alias ''3000'' = Inr None" by code_simp
  have m2: "maybeProxy (json_request ''myserver.example.com'' ''GET'' ''/socket'') =
              Some ''myserver''"
    by code_simp
  have g2: "getPublicPort directory_alias ''myserver'' = Inr (Some (Str ''8080''))"
    by code_simp
  have m3: "maybeProxy (json_request ''MYSERVER.example.com'' ''GET'' ''/'') = Some ''MYSERVER''"
    by code_simp
  have g3: "getPublicPort directory_alias ''MYSERVER'' = Inr None" by code_simp
  have r1: "router_all (\<lambda>u. u) directory_alias True
              (json_request ''3000.example.com'' ''GET'' ''/api?x=1'') =
            Inr (ProxyWeb ''http://0.0.0.0:3000/api?x=1'')"
    using forwarded_port_fallback [OF m1 g1, of True "\<lambda>u. u"]
    by (simp add: json_request_def html_request_def)
  have r2: "wsRouter_ws directory_alias False
              (json_request ''myserver.example.com'' ''GET'' ''/socket'') =
            Inr (ProxyWs ''http://0.0.0.0:8080/socket'')"
    using forwarded_port_fallback [OF m2 g2, of False "\<lambda>u. u"]
    by (simp add: json_request_def html_request_def)
  have r3: "router_all (\<lambda>u. u) directory_alias True
              (json_request ''MYSERVER.example.com'' ''GET'' ''/'') =
            Inr (ProxyWeb ''http://0.0.0.0:MYSERVER/'')"
    using forwarded_port_fallback [OF m3 g3, of True "\<lambda>u. u"]
    by (simp add: json_request_def html_request_def)
  from g1 r1 g2 r2 g3 r3 show ?thesis by simp
qed

section \<open>The WebSocket upgrade\<close>

text \<open>
  C9. For an upgrade request the host router matched and a lookup that returned: the
  upgrade is forwarded exactly when the caller is authenticated or the token is public,
  in every other case the handler throws the unauthorized error, and it never answers
  with a redirect.
\<close>

theorem websocket_upgrade_binary:
  assumes "maybeProxy req = Some port" and "getPublicPort this port = Inr found"
  shows "((\<exists>target. wsRouter_ws this isAuthenticated req = Inr (ProxyWs target)) \<longleftrightarrow>
            isAuthenticated \<or> found \<noteq> None) \<and>
         (\<not> (isAuthenticated \<or> found \<noteq> None) \<longrightarrow>
            wsRouter_ws this isAuthenticated req =
              Inl (HttpError ''Unauthorized'' Unauthorized)) \<and>
         (\<forall>route to. wsRouter_ws this isAuthenticated req \<noteq> Inr (Redirect route to))"
  using assms by (auto simp: wsRouter_ws_def Let_def)

theorem websocket_upgrade_binary_witness:
  "wsRouter_ws directory_8000 False (json_request ''8000.example.com'' ''GET'' ''/ws'') =
     Inr (ProxyWs ''http://0.0.0.0:8000/ws'') \<and>
   wsRouter_ws directory_8000 True (json_request ''3000.example.com'' ''GET'' ''/ws'') =
     Inr (ProxyWs ''http://0.0.0.0:3000/ws'') \<and>
   wsRouter_ws directory_8000 False (html_request ''3000.example.com'' ''GET'' ''/ws'') =
     Inl (HttpError ''Unauthorized'' Unauthorized)"
proof -
  have m: "maybeProxy (html_request ''3000.example.com'' ''GET'' ''/ws'') = Some ''3000''"
    by code_simp
  have g: "getPublicPort directory_8000 ''3000'' = Inr None" by code_simp
  have r1: "wsRouter_ws directory_8000 False
              (json_request ''8000.example.com'' ''GET'' ''/ws'') =
            Inr (ProxyWs ''http://0.0.0.0:8000/ws'')" by code_simp
  have r2: "wsRouter_ws directory_8000 True
              (json_request ''3000.example.com'' ''GET'' ''/ws'') =
            Inr (ProxyWs ''http://0.0.0.0:3000/ws'')" by code_simp
  have r3: "wsRouter_ws directory_8000 False
              (html_request ''3000.example.com'' ''GET'' ''/ws'') =
            Inl (HttpError ''Unauthorized'' Unauthorized)"
    using websocket_upgrade_binary [OF m g, of False] by simp
  from r1 r2 r3 show ?thesis by simp
qed

section \<open>Adding and changing a tracked file\<close>

lemma update_update_same: "AList.update k v (AList.update k v al) = AList.update k v al"
  by (induction al) auto

lemma length_update_le: "length (AList.update k v al) \<le> Suc (length al)"
  by (induction al) auto

lemma getFullPath_putFile: "getFullPath (putFile env this p) q = getFullPath this q"
  by (simp add: putFile_def getFullPath_def split: option.splits)

lemma didMatchGlob_putFile: "didMatchGlob env (putFile env this p) q = didMatchGlob env this q"
  by (simp add: putFile_def didMatchGlob_def split: option.splits)

lemma getPublicPortsFromFile_putFile:
  "getPublicPortsFromFile env (putFile env this p) q = getPublicPortsFromFile env this q"
  by (simp add: getPublicPortsFromFile_def getFullPath_putFile)

text \<open>
  C7. With the same file system (the same bytes under every path), a second add/change
  event for a path leaves the tracked documents, the merged entries and every lookup as
  the first event left them; an event adds at most one slot.
\<close>

theorem putFile_idempotent:
  "putFile env (putFile env this relPath) relPath = putFile env this relPath \<and>
   mergePortFiles (putFile env (putFile env this relPath) relPath) =
     mergePortFiles (putFile env this relPath) \<and>
   getPublicPort (putFile env (putFile env this relPath) relPath) tok =
     getPublicPort (putFile env this relPath) tok \<and>
   length (portFiles (putFile env this relPath)) \<le> Suc (length (portFiles this))"
proof -
  have eq: "putFile env (putFile env this relPath) relPath = putFile env this relPath"
  proof (cases "didMatchGlob env this relPath")
    case False
    then show ?thesis by (simp add: putFile_def)
  next
    case True
    show ?thesis
    proof (cases "getPublicPortsFromFile env this relPath")
      case None
      with True show ?thesis by (simp add: putFile_def)
    next
      case (Some publicPorts)
      let ?once = "this\<lparr>portFiles := AList.update relPath publicPorts (portFiles this)\<rparr>"
      have once: "putFile env this relPath = ?once"
        using True Some by (simp add: putFile_def)
      have m: "didMatchGlob env ?once relPath"
        using didMatchGlob_putFile [of env this relPath relPath] True once by simp
      have g: "getPublicPortsFromFile env ?once relPath = Some publicPorts"
        using getPublicPortsFromFile_putFile [of env this relPath relPath] Some once by simp
      have "putFile env ?once relPath = ?once"
        using m g by (simp add: putFile_def update_update_same)
      with once show ?thesis by simp
    qed
  qed
  have len: "length (portFiles (putFile env this relPath)) \<le> Suc (length (portFiles this))"
    by (simp add: putFile_def length_update_le split: option.splits)
  from eq len show ?thesis by simp
qed

theorem putFile_idempotent_witness:
  "portFiles (putFile env_8000 (putFile env_8000 started ''.brev/ports.yaml'')
     ''.brev/ports.yaml'') = [(''.brev/ports.yaml'', PortFile (Some [''8000'']))] \<and>
   putFile env_8000 (putFile env_8000 started ''.brev/ports.yaml'') ''.brev/ports.yaml'' =
     putFile env_8000 started ''.brev/ports.yaml'' \<and>
   mergePortFiles (putFile env_8000 (putFile env_8000 started ''.brev/ports.yaml'')
     ''.brev/ports.yaml'') = Inr [''8000'']"
proof -
  have once: "portFiles (putFile env_8000 started ''.brev/ports.yaml'') =
     [(''.brev/ports.yaml'', PortFile (Some [''8000'']))]" by code_simp
  have m: "mergePortFiles (putFile env_8000 started ''.brev/ports.yaml'') = Inr [''8000'']"
    by code_simp
  from putFile_idempotent [of env_8000 started "''.brev/ports.yaml''" "''8000''"] once m
  show ?thesis by simp
qed

section \<open>A manifest that cannot be read, loaded or validated\<close>

text \<open>
  C2, as the code has it. Reading a manifest never throws: when the file cannot be read,
  when it is not YAML, and when the loaded value does not fit the schema (\<open>null\<close>, a
  scalar, a sequence, \<open>ports: null\<close>, a \<open>ports\<close> of the wrong type, a key the schema does not
  know), the result is \<open>null\<close>, and the add/change event then leaves the tracked documents
  as they were.
\<close>

theorem malformed_manifest_leaves_tracked_set:
  "(readFileSync env (getFullPath this relPath) = Inl e \<longrightarrow>
      getPublicPortsFromFile env this relPath = None) \<and>
   (readFileSync env (getFullPath this relPath) = Inr text \<and> yaml_load env text = Inl e \<longrightarrow>
      getPublicPortsFromFile env this relPath = None) \<and>
   (readFileSync env (getFullPath this relPath) = Inr text \<and>
    yaml_load env text = Inr yamlData \<and> portFileSchema_validate yamlData = Inl message \<longrightarrow>
      getPublicPortsFromFile env this relPath = None) \<and>
   (getPublicPortsFromFile env this relPath = None \<longrightarrow> putFile env this relPath = this) \<and>
   portFileSchema_validate YNull = Inl ''value must be of type object'' \<and>
   portFileSchema_validate (YString s) = Inl ''value must be of type object'' \<and>
   portFileSchema_validate (YSeq ys) = Inl ''value must be of type object'' \<and>
   portFileSchema_validate (YMap [(''ports'', YNull)]) =
     Inl ''ports must be an array of strings'' \<and>
   portFileSchema_validate (YMap [(''ports'', YString s)]) =
     Inl ''ports must be an array of strings'' \<and>
   portFileSchema_validate (YMap [(''ports'', YSeq [YNumber n])]) =
     Inl ''ports must be an array of strings'' \<and>
   portFileSchema_validate (YMap [(''publicPorts'', YSeq [YString ''8000''])]) =
     Inl ''key is not allowed''"
  by (simp add: getPublicPortsFromFile_def putFile_def portFileSchema_validate_def)

theorem malformed_manifest_leaves_tracked_set_witness:
  "getPublicPortsFromFile env_unquoted directory_8000 ''.brev/ports.yaml'' = None \<and>
   putFile env_unquoted directory_8000 ''.brev/ports.yaml'' = directory_8000 \<and>
   getPublicPortsFromFile env_broken directory_8000 ''.brev/ports.yaml'' = None \<and>
   putFile env_broken directory_8000 ''.brev/ports.yaml'' = directory_8000 \<and>
   getPublicPortsFromFile (example_env []) started ''.brev/ports.yaml'' = None \<and>
   putFile (example_env []) started ''.brev/ports.yaml'' = started"
proof -
  have r1: "readFileSync env_unquoted (getFullPath directory_8000 ''.brev/ports.yaml'') =
              Inr manifest_unquoted" by code_simp
  have y1: "yaml_load env_unquoted manifest_unquoted =
              Inr (YMap [(''ports'', YSeq [YNumber 8000])])" by code_simp
  have v1: "portFileSchema_validate (YMap [(''ports'', YSeq [YNumber 8000])]) =
              Inl ''ports must be an array of strings''" by code_simp
  have r2: "readFileSync env_broken (getFullPath directory_8000 ''.brev/ports.yaml'') =
              Inr manifest_broken" by code_simp
  have y2: "yaml_load env_broken manifest_broken = Inl (Error ''YAMLException'')"
    by code_simp
  have r3: "readFileSync (example_env []) (getFullPath started ''.brev/ports.yaml'') =
              Inl (Error ''ENOENT'')" by code_simp
  have a: "getPublicPortsFromFile env_unquoted directory_8000 ''.brev/ports.yaml'' = None"
    using malformed_manifest_leaves_tracked_set
      [of env_unquoted directory_8000 "''.brev/ports.yaml''" _ manifest_unquoted
          "YMap [(''ports'', YSeq [YNumber 8000])]" "''ports must be an array of strings''"]
      r1 y1 v1 by blast
  have a': "putFile env_unquoted directory_8000 ''.brev/ports.yaml'' = directory_8000"
    using malformed_manifest_leaves_tracked_set
      [of env_unquoted directory_8000 "''.brev/ports.yaml''"] a by blast
  have b: "getPublicPortsFromFile env_broken directory_8000 ''.brev/ports.yaml'' = None"
    using malformed_manifest_leaves_tracked_set
      [of env_broken directory_8000 "''.brev/ports.yaml''" "Error ''YAMLException''"
          manifest_broken] r2 y2 by blast
  have b': "putFile env_broken directory_8000 ''.brev/ports.yaml'' = directory_8000"
    using malformed_manifest_leaves_tracked_set
      [of env_broken directory_8000 "''.brev/ports.yaml''"] b by blast
  have c: "getPublicPortsFromFile (example_env []) started ''.brev/ports.yaml'' = None"
    using malformed_manifest_leaves_tracked_set
      [of "example_env []" started "''.brev/ports.yaml''" "Error ''ENOENT''"] r3 by blast
  have c': "putFile (example_env []) started ''.brev/ports.yaml'' = started"
    using malformed_manifest_leaves_tracked_set
      [of "example_env []" started "''.brev/ports.yaml''"] c by blast
  from a a' b b' c c' show ?thesis by simp
qed

text \<open>
  The claim as it is written fails: for the tracked manifest that declared \<open>8000\<close>, a change
  to a content that does not fit the schema (the unquoted number) or that is not YAML
  yields \<open>null\<close>, not a document with no entries, and the file's previous entry stays in
  the directory.
\<close>

theorem malformed_manifest_keeps_entries_counterexample:
  "tracked_entries directory_8000 = [''8000''] \<and>
   getPublicPortsFromFile env_unquoted directory_8000 ''.brev/ports.yaml'' = None \<and>
   tracked_entries (putFile env_unquoted directory_8000 ''.brev/ports.yaml'') = [''8000''] \<and>
   getPublicPort (putFile env_unquoted directory_8000 ''.brev/ports.yaml'') ''8000'' =
     Inr (Some (Str ''8000'')) \<and>
   getPublicPortsFromFile env_broken directory_8000 ''.brev/ports.yaml'' = None \<and>
   getPublicPort (putFile env_broken directory_8000 ''.brev/ports.yaml'') ''8000'' =
     Inr (Some (Str ''8000''))"
  by code_simp

text \<open>
  What the schema accepts without a \<open>ports\<close> array is stored as it is: the empty text (it
  loads as \<open>undefined\<close>) and a manifest that only gives a \<open>version\<close>. Every lookup then
  raises a \<open>TypeError\<close>, for every token.
\<close>

lemma empty_manifest_breaks_lookup:
  "portFiles (putFile env_empty started ''.brev/ports.yaml'') =
     [(''.brev/ports.yaml'', UndefinedFile)] \<and>
   getPublicPort (putFile env_empty started ''.brev/ports.yaml'') ''8000'' =
     Inl (TypeError ''Cannot read properties of undefined (reading 'ports')'')"
  by code_simp

lemma manifest_without_ports_breaks_lookup:
  "portFileSchema_validate (YMap [(''version'', YString ''1'')]) = Inr (PortFile None) \<and>
   getPublicPort (started\<lparr>portFiles := [(''.brev/ports.yaml'', PortFile None)]\<rparr>) ''8000'' =
     Inl (TypeError ''Cannot read properties of undefined (reading 'forEach')'')"
  by code_simp

end
